theory Spec2Isabelle
  imports Main "HOL-Library.AList" "HOL-Library.Sublist"
begin

section \<open>\<^verbatim>\<open>src/types.ts\<close>\<close>

text \<open>
  The engine of \<^verbatim>\<open>src/sync.ts\<close> and \<^verbatim>\<open>src/status.ts\<close> works on absolute, normalised
  paths (the results of \<^verbatim>\<open>path.resolve\<close>). Such a path is kept as the list of its
  components, so \<^verbatim>\<open>path.dirname\<close> is \<open>butlast\<close> and \<^verbatim>\<open>path.join\<close> is \<open>@\<close>.
\<close>

type_synonym path = "string list"

datatype SyncMode = Auto | Link | Copy

datatype Scope = Global | Project

record ResolvedMapping =
  agent :: string
  source :: path
  target :: path
  mode :: SyncMode

record SyncRecord =
  rpath :: path
  rsource :: path
  ragent :: string
  rmode :: SyncMode
  size :: nat
  mtimeMs :: nat
  hash :: "string option"
  linkTarget :: "path option"

text \<open>
  \<^verbatim>\<open>files\<close> is a JavaScript object: an association list in insertion order, where
  assigning to a key that is there keeps its place (\<open>AList.update\<close>).
\<close>

record SyncState =
  version :: nat
  updatedAt :: string
  smode :: Scope
  projectRoot :: "string option"
  files :: "(path \<times> SyncRecord) list"

section \<open>The platform: the file tree and Node's fs primitives\<close>

text \<open>
  What a regular file holds: text, or the text \<^verbatim>\<open>JSON.stringify\<close> makes of a snapshot,
  kept as the snapshot \<^verbatim>\<open>JSON.parse\<close> reads back from it. Text that is JSON of another
  shape is outside the type \<^verbatim>\<open>SyncState\<close> to which the source casts what it parses.
\<close>

datatype content = Text string | Json SyncState

text \<open>
  The file tree is a nested directory structure. A symbolic link keeps its literal
  text; the tool only ever writes absolute source paths there, and the text is kept
  as the path it spells.
\<close>

datatype node = File content | Symlink path | Dir "(string \<times> node) list"

datatype errno = ENOENT | ENOTDIR | EEXIST | EISDIR | ENOTEMPTY | EPERM | EBUSY
  | ELOOP | EINVAL | ENAMETOOLONG

text \<open>\<^verbatim>\<open>ExitCodes\<close> of \<^verbatim>\<open>src/errors.ts\<close>.\<close>

datatype ExitCode = Success | Failure | Usage | Validation | Conflict | Filesystem

text \<open>
  What a JavaScript \<^verbatim>\<open>throw\<close> carries: an \<^verbatim>\<open>AgentConfigError(message, code)\<close> of the
  tool, or an error of the platform with its \<^verbatim>\<open>code\<close>.
\<close>

datatype error = AgentConfigError string ExitCode | NodeError errno

fun isDir :: "node \<Rightarrow> bool" where
  "isDir (Dir es) = True"
| "isDir n = False"

fun isSymbolicLink :: "node \<Rightarrow> bool" where
  "isSymbolicLink (Symlink t) = True"
| "isSymbolicLink n = False"

text \<open>
  The node at a place of the tree: the components are walked through directories
  only, no link is followed. A place is where an entry really lives; a path names a
  place once the links in its directory part are resolved (below).
\<close>

fun nodeAt :: "node \<Rightarrow> path \<Rightarrow> errno + node" where
  "nodeAt n [] = Inr n"
| "nodeAt (Dir es) (c # p) =
     (case map_of es c of None \<Rightarrow> Inl ENOENT | Some n \<Rightarrow> nodeAt n p)"
| "nodeAt n (c # p) = Inl ENOTDIR"

text \<open>Deleting the entry at a place, whatever it is; the root stays.\<close>

fun removeAt :: "path \<Rightarrow> node \<Rightarrow> node" where
  "removeAt [] n = n"
| "removeAt [c] (Dir es) = Dir (AList.delete c es)"
| "removeAt (c # p) (Dir es) =
     (case map_of es c of
        None \<Rightarrow> Dir es
      | Some n \<Rightarrow> Dir (AList.update c (removeAt p n) es))"
| "removeAt (c # p) n = n"

text \<open>Writing a node at a place whose parent directory exists.\<close>

fun putAt :: "path \<Rightarrow> node \<Rightarrow> node \<Rightarrow> node" where
  "putAt [] new n = n"
| "putAt [c] new (Dir es) = Dir (AList.update c new es)"
| "putAt (c # p) new (Dir es) =
     (case map_of es c of
        None \<Rightarrow> Dir es
      | Some n \<Rightarrow> Dir (AList.update c (putAt p new n) es))"
| "putAt (c # p) new n = n"

text \<open>
  Path resolution: the place of the directory that the components of a path lead
  to, from a place that is a directory. A directory is entered, a link is replaced
  by its (absolute) text and the walk starts again from the root, a regular file
  stops the walk with \<open>ENOTDIR\<close>. At most as many links are followed as the first
  argument says (40 on Linux), then the walk stops with \<open>ELOOP\<close>.
\<close>

function resolve :: "nat \<Rightarrow> node \<Rightarrow> path \<Rightarrow> path \<Rightarrow> errno + path" where
  "resolve k fs cur [] = Inr cur"
| "resolve k fs cur (c # rest) =
     (case nodeAt fs (cur @ [c]) of
        Inl e \<Rightarrow> Inl e
      | Inr (Dir es) \<Rightarrow> resolve k fs (cur @ [c]) rest
      | Inr (File b) \<Rightarrow> Inl ENOTDIR
      | Inr (Symlink t) \<Rightarrow>
          (case k of 0 \<Rightarrow> Inl ELOOP | Suc k' \<Rightarrow> resolve k' fs [] (t @ rest)))"
  by pat_completeness auto
termination
  by (relation "inv_image (less_than <*lex*> less_than) (\<lambda>(k, fs, cur, p). (k, length p))")
     auto

text \<open>
  The place a path names: its directory part is resolved, its last component is
  not. The root names itself.
\<close>

definition locate :: "node \<Rightarrow> path \<Rightarrow> errno + path" where
  "locate fs p =
     (if p = [] then Inr []
      else case resolve 40 fs [] (butlast p) of
        Inl e \<Rightarrow> Inl e
      | Inr d \<Rightarrow> Inr (d @ [last p]))"

text \<open>\<^verbatim>\<open>fs.lstat\<close>: the node a path names, not following a final link.\<close>

definition lstat :: "node \<Rightarrow> path \<Rightarrow> errno + node" where
  "lstat fs p = (case locate fs p of Inl e \<Rightarrow> Inl e | Inr q \<Rightarrow> nodeAt fs q)"

text \<open>
  \<^verbatim>\<open>fs.mkdir(target, { recursive: true })\<close>: the directories that are missing on the
  way are made; a link on the way has to lead to a directory that is there.
\<close>

fun mkdirFrom :: "nat \<Rightarrow> node \<Rightarrow> path \<Rightarrow> path \<Rightarrow> errno + node" where
  "mkdirFrom k fs cur [] = Inr fs"
| "mkdirFrom k fs cur (c # rest) =
     (case nodeAt fs (cur @ [c]) of
        Inl ENOENT \<Rightarrow> mkdirFrom k (putAt (cur @ [c]) (Dir []) fs) (cur @ [c]) rest
      | Inl e \<Rightarrow> Inl e
      | Inr (Dir es) \<Rightarrow> mkdirFrom k fs (cur @ [c]) rest
      | Inr (File b) \<Rightarrow> Inl (if rest = [] then EEXIST else ENOTDIR)
      | Inr (Symlink t) \<Rightarrow>
          (case k of
             0 \<Rightarrow> Inl ELOOP
           | Suc k' \<Rightarrow>
               (case resolve k' fs [] t of
                  Inl e \<Rightarrow> Inl e
                | Inr d \<Rightarrow> mkdirFrom k' fs d rest)))"

definition mkdirp :: "path \<Rightarrow> node \<Rightarrow> errno + node" where
  "mkdirp p fs = mkdirFrom 40 fs [] p"

text \<open>\<^verbatim>\<open>fs.unlink\<close>, \<^verbatim>\<open>fs.rmdir\<close>, \<^verbatim>\<open>fs.rm(target, { recursive: true, force: true })\<close>
  and \<^verbatim>\<open>fs.readdir\<close> (which lists the directory a final link leads to).\<close>

definition unlink :: "path \<Rightarrow> node \<Rightarrow> errno + node" where
  "unlink p fs =
     (case locate fs p of
        Inl e \<Rightarrow> Inl e
      | Inr q \<Rightarrow>
          (if q = [] then Inl EISDIR
           else case nodeAt fs q of
             Inl e \<Rightarrow> Inl e
           | Inr (Dir es) \<Rightarrow> Inl EISDIR
           | Inr n \<Rightarrow> Inr (removeAt q fs)))"

definition rmdir :: "path \<Rightarrow> node \<Rightarrow> errno + node" where
  "rmdir p fs =
     (case locate fs p of
        Inl e \<Rightarrow> Inl e
      | Inr q \<Rightarrow>
          (if q = [] then Inl EBUSY
           else case nodeAt fs q of
             Inl e \<Rightarrow> Inl e
           | Inr (Dir es) \<Rightarrow> (if es = [] then Inr (removeAt q fs) else Inl ENOTEMPTY)
           | Inr n \<Rightarrow> Inl ENOTDIR))"

definition rm :: "path \<Rightarrow> node \<Rightarrow> errno + node" where
  "rm p fs =
     (case locate fs p of
        Inl ENOENT \<Rightarrow> Inr fs
      | Inl e \<Rightarrow> Inl e
      | Inr q \<Rightarrow>
          (if q = [] then Inl EBUSY
           else case nodeAt fs q of
             Inl ENOENT \<Rightarrow> Inr fs
           | Inl e \<Rightarrow> Inl e
           | Inr n \<Rightarrow> Inr (removeAt q fs)))"

definition readdir :: "node \<Rightarrow> path \<Rightarrow> errno + string list" where
  "readdir fs p =
     (case resolve 40 fs [] p of
        Inl e \<Rightarrow> Inl e
      | Inr d \<Rightarrow>
          (case nodeAt fs d of
             Inl e \<Rightarrow> Inl e
           | Inr (Dir es) \<Rightarrow> Inr (remdups (map fst es))
           | Inr n \<Rightarrow> Inl ENOTDIR))"

text \<open>
  \<^verbatim>\<open>fs.stat\<close>-like following of a final link, at most 40 links deep, and the place
  at which a write through a final link arrives.
\<close>

fun follow :: "nat \<Rightarrow> node \<Rightarrow> path \<Rightarrow> errno + node" where
  "follow 0 fs p = Inl ELOOP"
| "follow (Suc k) fs p =
     (case lstat fs p of
        Inr (Symlink t) \<Rightarrow> follow k fs t
      | r \<Rightarrow> r)"

fun followPath :: "nat \<Rightarrow> node \<Rightarrow> path \<Rightarrow> errno + path" where
  "followPath 0 fs p = Inl ELOOP"
| "followPath (Suc k) fs p =
     (case locate fs p of
        Inl e \<Rightarrow> Inl e
      | Inr q \<Rightarrow>
          (case nodeAt fs q of
             Inr (Symlink t) \<Rightarrow> followPath k fs t
           | r \<Rightarrow> Inr q))"

text \<open>
  \<^verbatim>\<open>fs.readFile\<close> and \<^verbatim>\<open>fs.writeFile\<close>: what a file holds, read through links; and
  writing a file (through a link, should the path name one), creating it or
  replacing what it held.
\<close>

definition readFile :: "node \<Rightarrow> path \<Rightarrow> errno + content" where
  "readFile fs p =
     (case follow 40 fs p of
        Inl e \<Rightarrow> Inl e
      | Inr (Dir es) \<Rightarrow> Inl EISDIR
      | Inr (Symlink t) \<Rightarrow> Inl ELOOP
      | Inr (File c) \<Rightarrow> Inr c)"

definition writeFile :: "path \<Rightarrow> content \<Rightarrow> node \<Rightarrow> errno + node" where
  "writeFile p c fs =
     (case followPath 40 fs p of
        Inl e \<Rightarrow> Inl e
      | Inr q \<Rightarrow>
          (case nodeAt fs q of
             Inr (Dir es) \<Rightarrow> Inl EISDIR
           | Inr (Symlink t) \<Rightarrow> Inl ELOOP
           | r \<Rightarrow> Inr (putAt q (File c) fs)))"

text \<open>\<^verbatim>\<open>fs.copyFile(source, target)\<close>: reads the source and writes the target.\<close>

definition copyFile :: "path \<Rightarrow> path \<Rightarrow> node \<Rightarrow> errno + node" where
  "copyFile src dst fs =
     (case readFile fs src of Inl e \<Rightarrow> Inl e | Inr c \<Rightarrow> writeFile dst c fs)"


text \<open>
  What the run cannot see in its arguments: whether the platform lets a link be made
  at a path, the scratch directory, the terminal, the operator's replies to the
  conflict prompt (the number \<^verbatim>\<open>Number.parseInt\<close> reads, if any, and whether the
  second answer was yes), the error, if any, that making the scratch directory of
  \<^verbatim>\<open>canCreateSymlink\<close> or clearing it away raises, the clock (the ISO text of the n-th \<^verbatim>\<open>new Date()\<close>), the
  metadata \<^verbatim>\<open>lstat\<close> reports, the message text of a platform error, the message of
  the \<^verbatim>\<open>SyntaxError\<close> that \<^verbatim>\<open>JSON.parse\<close> raises on a text, and the limit on how deep
  a path may go.

  \<^verbatim>\<open>hashPath\<close> of \<^verbatim>\<open>src/filesystem.ts\<close> is taken as a parameter: a digest of what is
  at a path, or the error it raises.
\<close>

record env =
  symlinkAllowed :: "path \<Rightarrow> bool"
  tmpdir :: path
  scratchError :: "errno option"
  stdinTTY :: bool
  stdoutTTY :: bool
  answers :: "nat \<Rightarrow> int option \<times> bool"
  clock :: "nat \<Rightarrow> string"
  statSize :: "node \<Rightarrow> path \<Rightarrow> nat"
  statMtimeMs :: "node \<Rightarrow> path \<Rightarrow> nat"
  errorMessage :: "errno \<Rightarrow> string"
  syntaxMessage :: "string \<Rightarrow> string"
  maxDepth :: nat
  hashPath :: "node \<Rightarrow> path \<Rightarrow> error + string"

text \<open>\<^verbatim>\<open>fs.symlink(text, target, type)\<close>; the type only matters on Windows.\<close>

definition symlink :: "env \<Rightarrow> path \<Rightarrow> path \<Rightarrow> node \<Rightarrow> errno + node" where
  "symlink E text p fs =
     (if \<not> symlinkAllowed E p then Inl EPERM
      else case locate fs p of
        Inl e \<Rightarrow> Inl e
      | Inr q \<Rightarrow>
          (case nodeAt fs q of
             Inr n \<Rightarrow> Inl EEXIST
           | Inl ENOENT \<Rightarrow> Inr (putAt q (Symlink text) fs)
           | Inl e \<Rightarrow> Inl e))"

section \<open>\<^verbatim>\<open>src/filesystem.ts\<close>\<close>

definition ensureDir :: "path \<Rightarrow> node \<Rightarrow> error + node" where
  "ensureDir tgt fs =
     (case mkdirp tgt fs of Inl e \<Rightarrow> Inl (NodeError e) | Inr fs' \<Rightarrow> Inr fs')"

definition fileExists :: "node \<Rightarrow> path \<Rightarrow> error + bool" where
  "fileExists fs tgt =
     (case lstat fs tgt of
        Inr n \<Rightarrow> Inr True
      | Inl ENOENT \<Rightarrow> Inr False
      | Inl e \<Rightarrow> Inl (NodeError e))"

definition readLinkTarget :: "node \<Rightarrow> path \<Rightarrow> error + path option" where
  "readLinkTarget fs tgt =
     (case lstat fs tgt of
        Inr (Symlink t) \<Rightarrow> Inr (Some t)
      | Inr n \<Rightarrow> Inl (NodeError EINVAL)
      | Inl ENOENT \<Rightarrow> Inr None
      | Inl e \<Rightarrow> Inl (NodeError e))"

text \<open>The text of a path, as it appears in messages.\<close>

definition pathText :: "path \<Rightarrow> string" where
  "pathText p = (if p = [] then ''/'' else concat (map (\<lambda>c. CHR ''/'' # c) p))"

section \<open>\<^verbatim>\<open>src/state.ts\<close>\<close>

definition getStatePath :: "path \<Rightarrow> path" where
  "getStatePath root = root @ [''.sync-state.json'']"

definition readState :: "env \<Rightarrow> path \<Rightarrow> node \<Rightarrow> error + SyncState option" where
  "readState E root fs =
     (let statePath = getStatePath root
      in case readFile fs statePath of
           Inl ENOENT \<Rightarrow> Inr None
         | Inl e \<Rightarrow> Inl (NodeError e)
         | Inr (Json state) \<Rightarrow> Inr (Some state)
         | Inr (Text raw) \<Rightarrow>
             Inl (AgentConfigError (''Invalid JSON in '' @ pathText statePath @ '': ''
                                    @ syntaxMessage E raw) Validation))"

section \<open>\<^verbatim>\<open>src/status.ts\<close>\<close>

datatype Status = Missing | Drifted | Ok

record StatusEntry =
  spath :: path
  status :: Status
  reason :: "string option"

text \<open>The body of the loop of \<^verbatim>\<open>getStatus\<close>, for one record of the snapshot.\<close>

definition statusOf :: "env \<Rightarrow> node \<Rightarrow> SyncRecord \<Rightarrow> error + StatusEntry" where
  "statusOf E fs r =
     (case fileExists fs (rpath r) of
        Inl e \<Rightarrow> Inl e
      | Inr False \<Rightarrow>
          Inr \<lparr>spath = rpath r, status = Missing, reason = Some ''target missing''\<rparr>
      | Inr True \<Rightarrow>
          (case (if rmode r = Link \<or> rmode r = Auto
                 then (case lstat fs (rpath r) of
                         Inl e \<Rightarrow> Inl (NodeError e) | Inr st \<Rightarrow> Inr (Some st))
                 else Inr None) of
             Inl e \<Rightarrow> Inl e
           | Inr stat \<Rightarrow>
               (let m = (if rmode r = Auto
                         then (if (case stat of None \<Rightarrow> False | Some st \<Rightarrow> isSymbolicLink st)
                               then Link else Copy)
                         else rmode r)
                in if m = Link then
                     (if (case stat of None \<Rightarrow> True | Some st \<Rightarrow> \<not> isSymbolicLink st) then
                        Inr \<lparr>spath = rpath r, status = Drifted,
                             reason = Some ''link target changed''\<rparr>
                      else if linkTarget r = None then
                        Inr \<lparr>spath = rpath r, status = Drifted,
                             reason = Some ''link target changed''\<rparr>
                      else
                        (case readLinkTarget fs (rpath r) of
                           Inl e \<Rightarrow> Inl e
                         | Inr lt \<Rightarrow>
                             (if lt \<noteq> linkTarget r then
                                Inr \<lparr>spath = rpath r, status = Drifted,
                                     reason = Some ''link target changed''\<rparr>
                              else Inr \<lparr>spath = rpath r, status = Ok, reason = None\<rparr>)))
                   else
                     (if hash r = None \<or> hash r = Some [] then
                        Inr \<lparr>spath = rpath r, status = Drifted,
                             reason = Some ''content changed''\<rparr>
                      else
                        (case hashPath E fs (rpath r) of
                           Inl e \<Rightarrow> Inl e
                         | Inr currentHash \<Rightarrow>
                             (if Some currentHash \<noteq> hash r then
                                Inr \<lparr>spath = rpath r, status = Drifted,
                                     reason = Some ''content changed''\<rparr>
                              else Inr \<lparr>spath = rpath r, status = Ok, reason = None\<rparr>))))))"

text \<open>The loop of \<^verbatim>\<open>getStatus\<close> over the records, up to the first probe that throws.\<close>

fun statusAll :: "env \<Rightarrow> node \<Rightarrow> SyncRecord list \<Rightarrow> error + StatusEntry list" where
  "statusAll E fs [] = Inr []"
| "statusAll E fs (r # rs) =
     (case statusOf E fs r of
        Inl e \<Rightarrow> Inl e
      | Inr s \<Rightarrow> (case statusAll E fs rs of Inl e \<Rightarrow> Inl e | Inr ss \<Rightarrow> Inr (s # ss)))"

definition getStatus :: "env \<Rightarrow> path \<Rightarrow> node \<Rightarrow> error + StatusEntry list" where
  "getStatus E stateRoot fs =
     (case readState E stateRoot fs of
        Inl e \<Rightarrow> Inl e
      | Inr None \<Rightarrow> Inr []
      | Inr (Some state) \<Rightarrow> statusAll E fs (map snd (files state)))"

section \<open>Effects: a state with errors\<close>

text \<open>
  An \<^verbatim>\<open>async\<close> function of the source becomes a function from the state to a result
  (\<open>Inl\<close> what it throws, \<open>Inr\<close> what it returns) and the state it leaves behind;
  a throw keeps what was changed before it.
\<close>

type_synonym ('a, 's) eff = "'s \<Rightarrow> (error + 'a) \<times> 's"

definition ret :: "'a \<Rightarrow> ('a, 's) eff" where
  "ret x s = (Inr x, s)"

definition throw :: "error \<Rightarrow> ('a, 's) eff" where
  "throw e s = (Inl e, s)"

definition andThen :: "('a, 's) eff \<Rightarrow> ('a \<Rightarrow> ('b, 's) eff) \<Rightarrow> ('b, 's) eff" where
  "andThen f g s = (case f s of (Inl e, s') \<Rightarrow> (Inl e, s') | (Inr x, s') \<Rightarrow> g x s')"

definition getState :: "('s, 's) eff" where
  "getState s = (Inr s, s)"

definition tryCatch :: "('a, 's) eff \<Rightarrow> (error \<Rightarrow> ('a, 's) eff) \<Rightarrow> ('a, 's) eff" where
  "tryCatch f h s = (case f s of (Inl e, s') \<Rightarrow> h e s' | (Inr x, s') \<Rightarrow> (Inr x, s'))"

text \<open>A primitive of the platform changes the tree or fails leaving it as it was.\<close>

definition prim :: "(node \<Rightarrow> errno + node) \<Rightarrow> (unit, node) eff" where
  "prim f fs = (case f fs of Inl e \<Rightarrow> (Inl (NodeError e), fs) | Inr fs' \<Rightarrow> (Inr (), fs'))"

definition primE :: "(node \<Rightarrow> error + node) \<Rightarrow> (unit, node) eff" where
  "primE f fs = (case f fs of Inl e \<Rightarrow> (Inl e, fs) | Inr fs' \<Rightarrow> (Inr (), fs'))"

definition probe :: "(node \<Rightarrow> errno + 'a) \<Rightarrow> ('a, node) eff" where
  "probe f fs = (case f fs of Inl e \<Rightarrow> (Inl (NodeError e), fs) | Inr x \<Rightarrow> (Inr x, fs))"

definition probeE :: "(node \<Rightarrow> error + 'a) \<Rightarrow> ('a, node) eff" where
  "probeE f fs = (case f fs of Inl e \<Rightarrow> (Inl e, fs) | Inr x \<Rightarrow> (Inr x, fs))"

text \<open>\<^verbatim>\<open>writeState\<close> of \<^verbatim>\<open>src/state.ts\<close>: makes the root, then writes the file.\<close>

definition writeState :: "path \<Rightarrow> SyncState \<Rightarrow> (unit, node) eff" where
  "writeState root state =
     andThen (prim (mkdirp root))
       (\<lambda>u. prim (writeFile (getStatePath root) (Json state)))"

section \<open>\<^verbatim>\<open>copyFileOrDir\<close> of \<^verbatim>\<open>src/filesystem.ts\<close>\<close>

text \<open>
  The function reads the tree again at every level,
  so the recursion is bounded by how deep the platform lets a path go; the entries
  of a directory, which the source copies under \<^verbatim>\<open>Promise.all\<close>, are copied in the
  order \<^verbatim>\<open>readdir\<close> lists them, up to the first that fails.
\<close>

fun copyFileOrDir :: "nat \<Rightarrow> path \<Rightarrow> path \<Rightarrow> (unit, node) eff"
  and copyEntries :: "nat \<Rightarrow> path \<Rightarrow> path \<Rightarrow> string list \<Rightarrow> (unit, node) eff" where
  "copyFileOrDir 0 src dst fs = (Inl (NodeError ENAMETOOLONG), fs)"
| "copyFileOrDir (Suc k) src dst fs =
     (case lstat fs src of
        Inl e \<Rightarrow> (Inl (NodeError e), fs)
      | Inr (Dir es) \<Rightarrow>
          (case ensureDir dst fs of
             Inl e \<Rightarrow> (Inl e, fs)
           | Inr fs1 \<Rightarrow>
               (case readdir fs1 src of
                  Inl e \<Rightarrow> (Inl (NodeError e), fs1)
                | Inr entries \<Rightarrow> copyEntries k src dst entries fs1))
      | Inr n \<Rightarrow>
          (case ensureDir (butlast dst) fs of
             Inl e \<Rightarrow> (Inl e, fs)
           | Inr fs1 \<Rightarrow> prim (copyFile src dst) fs1))"
| "copyEntries k src dst [] fs = (Inr (), fs)"
| "copyEntries k src dst (entry # rest) fs =
     (case copyFileOrDir k (src @ [entry]) (dst @ [entry]) fs of
        (Inl e, fs') \<Rightarrow> (Inl e, fs')
      | (Inr u, fs') \<Rightarrow> copyEntries k src dst rest fs')"

section \<open>\<^verbatim>\<open>src/sync.ts\<close>\<close>

datatype ConflictPolicy = Overwrite | Backup | Skip | Cancel

record ConflictState =
  policy :: "ConflictPolicy option"
  canAsk :: bool

record MappingFile =
  msource :: string
  mtarget :: string

record AgentScopeConfig =
  root :: string
  sfiles :: "MappingFile list"

record AgentConfigEntry =
  displayName :: string
  global :: "AgentScopeConfig option"
  project :: "AgentScopeConfig option"

record AgentConfigFile =
  defaultProfile :: string
  agents :: "(string \<times> AgentConfigEntry) list"
  profiles :: "(string \<times> MappingFile list option) list option"

record SyncOptions =
  config :: AgentConfigFile
  sourceRoot :: path
  omode :: Scope
  oprojectRoot :: "string option"
  linkMode :: SyncMode
  dryRun :: bool
  force :: bool
  conflictPolicy :: "ConflictPolicy option"
  agentFilter :: "string option"
  strict :: "bool option"

record SyncResult =
  planned :: "ResolvedMapping list"
  updated :: "ResolvedMapping list"
  skipped :: "ResolvedMapping list"
  rwarnings :: "string list"

text \<open>
  The path arithmetic of \<^verbatim>\<open>src/paths.ts\<close> (placeholders, home directory, joining and
  normalising) and the textual substitution of \<^verbatim>\<open><project-root>\<close> are given: they
  turn the texts of the configuration into the absolute paths the engine works on.
\<close>

record pathfns =
  resolvePath :: "string \<Rightarrow> path"
  resolveFromRoot :: "path \<Rightarrow> string \<Rightarrow> path"
  replaceProjectRoot :: "string \<Rightarrow> string \<Rightarrow> string"

text \<open>
  The state of a run: the tree, how many times the clock was read and the operator
  asked, and the variables of \<^verbatim>\<open>syncConfigs\<close> that its loop changes.
\<close>

record run =
  tree :: node
  ticks :: nat
  asked :: nat
  warnings :: "string list"
  updatedMappings :: "ResolvedMapping list"
  skippedMappings :: "ResolvedMapping list"
  conflictState :: ConflictState

definition onTree :: "('a, node) eff \<Rightarrow> ('a, run) eff" where
  "onTree f st = (case f (tree st) of (r, fs') \<Rightarrow> (r, st\<lparr>tree := fs'\<rparr>))"

definition pushWarning :: "string \<Rightarrow> (unit, run) eff" where
  "pushWarning w st = (Inr (), st\<lparr>warnings := warnings st @ [w]\<rparr>)"

fun errnoCode :: "errno \<Rightarrow> string" where
  "errnoCode ENOENT = ''ENOENT''"
| "errnoCode ENOTDIR = ''ENOTDIR''"
| "errnoCode EEXIST = ''EEXIST''"
| "errnoCode EISDIR = ''EISDIR''"
| "errnoCode ENOTEMPTY = ''ENOTEMPTY''"
| "errnoCode EPERM = ''EPERM''"
| "errnoCode EBUSY = ''EBUSY''"
| "errnoCode ELOOP = ''ELOOP''"
| "errnoCode EINVAL = ''EINVAL''"
| "errnoCode ENAMETOOLONG = ''ENAMETOOLONG''"

fun formatError :: "env \<Rightarrow> error \<Rightarrow> string" where
  "formatError E (NodeError e) = errnoCode e @ '': '' @ errorMessage E e"
| "formatError E (AgentConfigError msg c) = msg"

fun isAgentConfigError :: "error \<Rightarrow> bool" where
  "isAgentConfigError (AgentConfigError msg c) = True"
| "isAgentConfigError (NodeError e) = False"

definition promptConflictAction :: "env \<Rightarrow> path \<Rightarrow> nat \<Rightarrow> ConflictPolicy \<times> bool" where
  "promptConflictAction E tgt n =
     (case answers E n of (selection, applyToAll) \<Rightarrow>
        (if selection = Some 1 then (Overwrite, applyToAll)
         else if selection = Some 2 then (Backup, applyToAll)
         else if selection = Some 4 then (Cancel, applyToAll)
         else (Skip, applyToAll)))"

definition resolveConflictPolicy ::
  "env \<Rightarrow> path \<Rightarrow> ConflictState \<Rightarrow> (ConflictPolicy \<times> ConflictState, run) eff" where
  "resolveConflictPolicy E tgt state st =
     (case policy state of
        Some p \<Rightarrow> (Inr (p, state), st)
      | None \<Rightarrow>
          (if \<not> canAsk state \<or> \<not> stdinTTY E \<or> \<not> stdoutTTY E then
             (Inr (Skip, state\<lparr>policy := Some Skip\<rparr>), st)
           else
             (case promptConflictAction E tgt (asked st) of (action, applyToAll) \<Rightarrow>
                (Inr (action,
                      \<lparr>policy = (if applyToAll then Some action else None),
                       canAsk = \<not> applyToAll\<rparr>),
                 st\<lparr>asked := Suc (asked st)\<rparr>))))"

definition timestampText :: "string \<Rightarrow> string" where
  "timestampText stamp = map (\<lambda>c. if c = CHR '':'' \<or> c = CHR ''.'' then CHR ''-'' else c) stamp"

definition backupDestination :: "env \<Rightarrow> path \<Rightarrow> path \<Rightarrow> nat \<Rightarrow> path" where
  "backupDestination E tgt srcRoot n =
     (srcRoot @ [''backup'', timestampText (clock E n)]) @ tgt"

definition backupTarget :: "env \<Rightarrow> path \<Rightarrow> path \<Rightarrow> (unit, run) eff" where
  "backupTarget E tgt srcRoot st =
     (let destination = backupDestination E tgt srcRoot (ticks st);
          st1 = st\<lparr>ticks := Suc (ticks st)\<rparr>
      in andThen (onTree (primE (ensureDir (butlast destination))))
           (\<lambda>u. onTree (copyFileOrDir (maxDepth E) tgt destination)) st1)"

definition getProfileFiles :: "AgentConfigFile \<Rightarrow> MappingFile list" where
  "getProfileFiles cfg =
     (case profiles cfg of
        None \<Rightarrow> []
      | Some ps \<Rightarrow>
          (case map_of ps (defaultProfile cfg) of
             None \<Rightarrow> []
           | Some None \<Rightarrow> []
           | Some (Some fs) \<Rightarrow> fs))"

fun resolveAgents ::
  "pathfns \<Rightarrow> MappingFile list \<Rightarrow> path \<Rightarrow> Scope \<Rightarrow> string option \<Rightarrow> SyncMode \<Rightarrow>
   string option \<Rightarrow> (string \<times> AgentConfigEntry) list \<Rightarrow> error + ResolvedMapping list" where
  "resolveAgents P profileFiles srcRoot sc projRoot lm flt [] = Inr []"
| "resolveAgents P profileFiles srcRoot sc projRoot lm flt ((ag, agentConfig) # rest) =
     (if flt \<noteq> None \<and> flt \<noteq> Some [] \<and> flt \<noteq> Some ag then
        resolveAgents P profileFiles srcRoot sc projRoot lm flt rest
      else
        (case (if sc = Global then global agentConfig else project agentConfig) of
           None \<Rightarrow> resolveAgents P profileFiles srcRoot sc projRoot lm flt rest
         | Some scopeConfig \<Rightarrow>
             (if sc = Project \<and> (projRoot = None \<or> projRoot = Some []) then
                Inl (AgentConfigError ''Project root is required for project mode'' Validation)
              else
                (let rt = (if sc = Project
                           then replaceProjectRoot P (root scopeConfig) (the projRoot)
                           else root scopeConfig);
                     resolvedRoot = resolvePath P rt;
                     mine = map (\<lambda>mf. \<lparr>agent = ag,
                                        source = resolveFromRoot P srcRoot (msource mf),
                                        target = resolveFromRoot P resolvedRoot (mtarget mf),
                                        mode = lm\<rparr>)
                                (sfiles scopeConfig @ profileFiles)
                 in (case resolveAgents P profileFiles srcRoot sc projRoot lm flt rest of
                       Inl e \<Rightarrow> Inl e
                     | Inr others \<Rightarrow> Inr (mine @ others))))))"

definition resolveMappings ::
  "pathfns \<Rightarrow> AgentConfigFile \<Rightarrow> path \<Rightarrow> Scope \<Rightarrow> string option \<Rightarrow> SyncMode \<Rightarrow>
   string option \<Rightarrow> error + ResolvedMapping list" where
  "resolveMappings P cfg srcRoot sc projRoot lm flt =
     resolveAgents P (getProfileFiles cfg) srcRoot sc projRoot lm flt (agents cfg)"

text \<open>
  \<^verbatim>\<open>canCreateSymlink\<close> tries a link in a scratch directory, which it removes again:
  what remains of it is whether the platform allowed the link there, unless making
  the scratch directory (outside the \<^verbatim>\<open>try\<close>) or clearing it away (in the
  \<^verbatim>\<open>finally\<close>) throws.
\<close>

definition canCreateSymlink :: "env \<Rightarrow> error + bool" where
  "canCreateSymlink E =
     (case scratchError E of
        Some e \<Rightarrow> Inl (NodeError e)
      | None \<Rightarrow> Inr (symlinkAllowed E (tmpdir E @ [''agentconfig-'', ''target''])))"

definition resolveSyncMode :: "env \<Rightarrow> SyncMode \<Rightarrow> error + SyncMode" where
  "resolveSyncMode E lm =
     (if lm \<noteq> Auto then Inr lm
      else case canCreateSymlink E of
             Inl e \<Rightarrow> Inl e
           | Inr canLink \<Rightarrow> Inr (if canLink then Link else Copy))"

record TargetInfo =
  isDirectory :: bool
  isSymlink :: bool
  tlinkTarget :: "path option"

definition getTargetInfo :: "node \<Rightarrow> path \<Rightarrow> TargetInfo option" where
  "getTargetInfo fs tgt =
     (case lstat fs tgt of
        Inl e \<Rightarrow> None
      | Inr stat \<Rightarrow>
          (if isSymbolicLink stat then
             (case readLinkTarget fs tgt of
                Inl e \<Rightarrow> None
              | Inr lt \<Rightarrow> Some \<lparr>isDirectory = False, isSymlink = True, tlinkTarget = lt\<rparr>)
           else Some \<lparr>isDirectory = isDir stat, isSymlink = False, tlinkTarget = None\<rparr>))"

definition removeEmptyDirectory :: "path \<Rightarrow> (bool, node) eff" where
  "removeEmptyDirectory tgt =
     andThen (probe (\<lambda>fs. readdir fs tgt))
       (\<lambda>entries. if length entries > 0 then ret False
                   else andThen (prim (rmdir tgt)) (\<lambda>u. ret True))"

definition removeDirectory :: "path \<Rightarrow> bool \<Rightarrow> (bool, node) eff" where
  "removeDirectory tgt allowNonEmptyDir =
     (if \<not> allowNonEmptyDir then removeEmptyDirectory tgt
      else andThen (prim (rm tgt)) (\<lambda>u. ret True))"

definition ensureTargetParent :: "path \<Rightarrow> path \<Rightarrow> bool \<Rightarrow> (unit, run) eff" where
  "ensureTargetParent targetParent tgt withWarnings =
     andThen (onTree (probeE (\<lambda>fs. fileExists fs targetParent)))
       (\<lambda>parentExists.
          if \<not> parentExists then
            andThen (onTree (primE (ensureDir targetParent)))
              (\<lambda>u. if withWarnings then
                      pushWarning (''Created target parent directory: '' @ pathText targetParent
                                   @ '' (for '' @ pathText tgt @ '')'')
                    else ret ())
          else onTree (primE (ensureDir targetParent)))"

definition refusal :: "path \<Rightarrow> error" where
  "refusal tgt =
     AgentConfigError (''Refusing to replace non-empty directory: '' @ pathText tgt) Filesystem"

definition applyCopyMapping :: "env \<Rightarrow> ResolvedMapping \<Rightarrow> bool \<Rightarrow> (unit, run) eff" where
  "applyCopyMapping E mapping allowNonEmptyDir =
     andThen (onTree (probe (\<lambda>fs. lstat fs (source mapping))))
       (\<lambda>sourceStat.
     andThen (onTree (\<lambda>fs. (Inr (getTargetInfo fs (target mapping)), fs)))
       (\<lambda>existing.
          let targetParent = butlast (target mapping) in
          if isDir sourceStat then
            andThen (case existing of
                       None \<Rightarrow> ret ()
                     | Some info \<Rightarrow>
                         if \<not> isDirectory info then onTree (prim (unlink (target mapping)))
                         else ret ())
              (\<lambda>u.
            andThen (case existing of
                       None \<Rightarrow> ret ()
                     | Some info \<Rightarrow>
                         if isDirectory info then
                           andThen (onTree (removeDirectory (target mapping) allowNonEmptyDir))
                             (\<lambda>removed. if \<not> removed then throw (refusal (target mapping))
                                         else ret ())
                         else ret ())
              (\<lambda>u.
            andThen (ensureTargetParent targetParent (target mapping) False)
              (\<lambda>u. onTree (copyFileOrDir (maxDepth E) (source mapping) (target mapping)))))
          else
            andThen (case existing of
                       None \<Rightarrow> ret ()
                     | Some info \<Rightarrow>
                         if isDirectory info then
                           andThen (onTree (removeDirectory (target mapping) allowNonEmptyDir))
                             (\<lambda>removed. if \<not> removed then throw (refusal (target mapping))
                                         else ret ())
                         else onTree (prim (unlink (target mapping))))
              (\<lambda>u.
            andThen (ensureTargetParent targetParent (target mapping) False)
              (\<lambda>u. onTree (copyFileOrDir (maxDepth E) (source mapping) (target mapping))))))"

text \<open>The \<^verbatim>\<open>try\<close> block of \<^verbatim>\<open>applyMapping\<close>: replacing what is at the target by a link.\<close>

definition tryLink :: "env \<Rightarrow> ResolvedMapping \<Rightarrow> bool \<Rightarrow> (unit, run) eff" where
  "tryLink E mapping allowNonEmptyDir =
     andThen (onTree (probe (\<lambda>fs. lstat fs (source mapping))))
       (\<lambda>sourceStat.
     andThen (onTree (\<lambda>fs. (Inr (getTargetInfo fs (target mapping)), fs)))
       (\<lambda>existing.
          let makeLink = onTree (prim (symlink E (source mapping) (target mapping)))
          in case existing of
               None \<Rightarrow> makeLink
             | Some info \<Rightarrow>
                 if isSymlink info then
                   (if tlinkTarget info = Some (source mapping) then ret ()
                    else andThen (onTree (prim (unlink (target mapping))))
                           (\<lambda>u. makeLink))
                 else if isDirectory info then
                   andThen (onTree (removeDirectory (target mapping) allowNonEmptyDir))
                     (\<lambda>removed. if \<not> removed then throw (refusal (target mapping))
                                 else makeLink)
                 else andThen (onTree (prim (unlink (target mapping))))
                        (\<lambda>u. makeLink)))"

definition applyMapping :: "env \<Rightarrow> ResolvedMapping \<Rightarrow> bool \<Rightarrow> (unit, run) eff" where
  "applyMapping E mapping allowNonEmptyDir =
     (if mode mapping = Copy then applyCopyMapping E mapping allowNonEmptyDir
      else
        andThen (ensureTargetParent (butlast (target mapping)) (target mapping) True)
          (\<lambda>u.
             tryCatch (tryLink E mapping allowNonEmptyDir)
               (\<lambda>err.
                  if isAgentConfigError err then throw err
                  else andThen (pushWarning (''Symlink failed for '' @ pathText (target mapping)
                                   @ '' ('' @ formatError E err @ ''); falling back to copy''))
                         (\<lambda>u. applyCopyMapping E mapping allowNonEmptyDir))))"

definition isManaged :: "path \<Rightarrow> SyncState option \<Rightarrow> bool" where
  "isManaged tgt state =
     (case state of None \<Rightarrow> False | Some s \<Rightarrow> map_of (files s) tgt \<noteq> None)"

definition pushSkipped :: "ResolvedMapping \<Rightarrow> (unit, run) eff" where
  "pushSkipped mapping st = (Inr (), st\<lparr>skippedMappings := skippedMappings st @ [mapping]\<rparr>)"

definition setConflictState :: "ConflictState \<Rightarrow> (unit, run) eff" where
  "setConflictState cs st = (Inr (), st\<lparr>conflictState := cs\<rparr>)"

definition pushUpdated :: "ResolvedMapping \<Rightarrow> (unit, run) eff" where
  "pushUpdated mapping st = (Inr (), st\<lparr>updatedMappings := updatedMappings st @ [mapping]\<rparr>)"

text \<open>
  The conflict block of the loop of \<^verbatim>\<open>syncConfigs\<close> (an existing target that is
  neither forced nor managed). It returns \<open>None\<close> where the source says
  \<^verbatim>\<open>continue\<close>, and otherwise the value of \<^verbatim>\<open>allowNonEmptyDir\<close> after the block.
\<close>

definition conflictBlock ::
  "env \<Rightarrow> path \<Rightarrow> bool \<Rightarrow> ResolvedMapping \<Rightarrow> bool \<Rightarrow> (bool option, run) eff" where
  "conflictBlock E srcRoot dry mapping allowNonEmptyDir =
     andThen getState
       (\<lambda>st.
     andThen (resolveConflictPolicy E (target mapping) (conflictState st))
       (\<lambda>decision.
     andThen (setConflictState (snd decision))
       (\<lambda>u.
          if fst decision = Cancel then throw (AgentConfigError ''Sync cancelled'' Conflict)
          else if fst decision = Skip then
            andThen (pushWarning (''Skipping unmanaged target: '' @ pathText (target mapping)))
              (\<lambda>u. andThen (pushSkipped mapping) (\<lambda>u. ret None))
          else
            andThen (if fst decision = Backup then
                       andThen (if \<not> dry then backupTarget E (target mapping) srcRoot
                                else ret ())
                         (\<lambda>u. ret True)
                     else ret allowNonEmptyDir)
              (\<lambda>allow. ret (Some (if fst decision = Overwrite then True else allow))))))"

text \<open>The body of the loop of \<^verbatim>\<open>syncConfigs\<close>, for one mapping.\<close>

definition syncBody ::
  "env \<Rightarrow> SyncOptions \<Rightarrow> bool \<Rightarrow> SyncState option \<Rightarrow> ResolvedMapping \<Rightarrow> (unit, run) eff" where
  "syncBody E options strictMode existingState mapping =
     andThen getState
       (\<lambda>st.
      let policyAllowsOverwrite =
            (policy (conflictState st) = Some Overwrite \<or> policy (conflictState st) = Some Backup);
          managedTarget = isManaged (target mapping) existingState;
          allowNonEmptyDir = (force options \<or> policyAllowsOverwrite \<or> managedTarget)
      in andThen (onTree (probeE (\<lambda>fs. fileExists fs (source mapping))))
           (\<lambda>sourceExists.
              if \<not> sourceExists then
                (if strictMode then
                   throw (AgentConfigError (''Missing source: '' @ pathText (source mapping))
                            Validation)
                 else
                   andThen (pushWarning (''Skipping missing source: ''
                                         @ pathText (source mapping)))
                     (\<lambda>u. pushSkipped mapping))
              else
                andThen (onTree (probeE (\<lambda>fs. fileExists fs (target mapping))))
                  (\<lambda>targetExists.
                andThen (if targetExists \<and> \<not> force options \<and> \<not> managedTarget then
                           conflictBlock E (sourceRoot options) (dryRun options) mapping
                             allowNonEmptyDir
                         else ret (Some allowNonEmptyDir))
                  (\<lambda>go.
                     case go of
                       None \<Rightarrow> ret ()
                     | Some allow \<Rightarrow>
                         if dryRun options then ret ()
                         else
                           andThen
                             (tryCatch (applyMapping E mapping allow)
                                (\<lambda>err.
                                   if isAgentConfigError err then throw err
                                   else throw (AgentConfigError
                                                 (''Failed to sync '' @ pathText (target mapping))
                                                 Filesystem)))
                             (\<lambda>u. pushUpdated mapping)))))"

fun syncLoop ::
  "env \<Rightarrow> SyncOptions \<Rightarrow> bool \<Rightarrow> SyncState option \<Rightarrow> ResolvedMapping list \<Rightarrow> (unit, run) eff"
  where
  "syncLoop E options strictMode existingState [] st = (Inr (), st)"
| "syncLoop E options strictMode existingState (mapping # rest) st =
     (case syncBody E options strictMode existingState mapping st of
        (Inl e, st') \<Rightarrow> (Inl e, st')
      | (Inr u, st') \<Rightarrow> syncLoop E options strictMode existingState rest st')"

text \<open>
  The record that the loop of \<^verbatim>\<open>buildState\<close> makes for a mapping, from what is at
  its target.
\<close>

definition makeRecord :: "env \<Rightarrow> node \<Rightarrow> ResolvedMapping \<Rightarrow> error + SyncRecord" where
  "makeRecord E fs mapping =
     (case lstat fs (target mapping) of
        Inl e \<Rightarrow> Inl (NodeError e)
      | Inr stat \<Rightarrow>
          (let isLink = isSymbolicLink stat;
               modeValue = (if isLink then Link else Copy)
           in case (if modeValue = Copy
                    then (case hashPath E fs (target mapping) of
                            Inl e \<Rightarrow> Inl e | Inr h \<Rightarrow> Inr (Some h))
                    else Inr None) of
                Inl e \<Rightarrow> Inl e
              | Inr h \<Rightarrow>
                  (case (if modeValue = Link then readLinkTarget fs (target mapping)
                         else Inr None) of
                     Inl e \<Rightarrow> Inl e
                   | Inr lt \<Rightarrow>
                       Inr \<lparr>rpath = target mapping, rsource = source mapping,
                            ragent = agent mapping, rmode = modeValue,
                            size = statSize E fs (target mapping),
                            mtimeMs = statMtimeMs E fs (target mapping),
                            hash = h, linkTarget = lt\<rparr>)))"

text \<open>The loop of \<^verbatim>\<open>buildState\<close> over the mappings applied in this run.\<close>

fun buildFiles ::
  "env \<Rightarrow> node \<Rightarrow> ResolvedMapping list \<Rightarrow> (path \<times> SyncRecord) list \<Rightarrow>
   error + (path \<times> SyncRecord) list" where
  "buildFiles E fs [] fls = Inr fls"
| "buildFiles E fs (mapping # rest) fls =
     (case makeRecord E fs mapping of
        Inl e \<Rightarrow> Inl e
      | Inr record \<Rightarrow> buildFiles E fs rest (AList.update (target mapping) record fls))"

definition buildState ::
  "env \<Rightarrow> path \<Rightarrow> Scope \<Rightarrow> string option \<Rightarrow> ResolvedMapping list \<Rightarrow> SyncState option \<Rightarrow>
   (SyncState, run) eff" where
  "buildState E stateRoot sc projRoot mappings previousState st =
     (case buildFiles E (tree st) mappings
             (case previousState of None \<Rightarrow> [] | Some s \<Rightarrow> files s) of
        Inl e \<Rightarrow> (Inl e, st)
      | Inr fls \<Rightarrow>
          (Inr \<lparr>version = 1, updatedAt = clock E (ticks st), smode = sc,
                projectRoot = projRoot, files = fls\<rparr>,
           st\<lparr>ticks := Suc (ticks st)\<rparr>))"

text \<open>The variables of \<^verbatim>\<open>syncConfigs\<close> as they are when its loop starts.\<close>

definition startRun :: "SyncOptions \<Rightarrow> run \<Rightarrow> run" where
  "startRun options w =
     w\<lparr>warnings := [], updatedMappings := [], skippedMappings := [],
       conflictState := \<lparr>policy = conflictPolicy options, canAsk = True\<rparr>\<rparr>"

definition syncConfigs :: "env \<Rightarrow> pathfns \<Rightarrow> SyncOptions \<Rightarrow> (SyncResult, run) eff" where
  "syncConfigs E P options w =
     (let strictMode = (case strict options of None \<Rightarrow> False | Some b \<Rightarrow> b)
      in case resolveSyncMode E (linkMode options) of
           Inl e \<Rightarrow> (Inl e, w)
         | Inr resolvedMode \<Rightarrow>
      (case resolveMappings P (config options) (sourceRoot options) (omode options)
                (oprojectRoot options) resolvedMode (agentFilter options) of
           Inl e \<Rightarrow> (Inl e, w)
         | Inr resolvedMappings \<Rightarrow>
             (let stateRoot = sourceRoot options
              in case readState E stateRoot (tree w) of
                   Inl e \<Rightarrow> (Inl e, w)
                 | Inr existingState \<Rightarrow>
                     andThen (syncLoop E options strictMode existingState resolvedMappings)
                       (\<lambda>u.
                     andThen (if \<not> dryRun options then
                                andThen getState
                                  (\<lambda>st.
                                andThen (buildState E stateRoot (omode options)
                                           (oprojectRoot options) (updatedMappings st)
                                           existingState)
                                  (\<lambda>newState. onTree (writeState stateRoot newState)))
                              else ret ())
                       (\<lambda>u.
                     andThen getState
                       (\<lambda>st. ret \<lparr>planned = resolvedMappings, updated = updatedMappings st,
                                  skipped = skippedMappings st, rwarnings = warnings st\<rparr>)))
                       (startRun options w))))"

text \<open>
  The classification of section 4.6 of the specification, in its words: what a
  record's status is, given whether the target exists, whether it is a link now, the
  text of that link and the digest of the target.
\<close>

definition driftSpec ::
  "SyncRecord \<Rightarrow> bool \<Rightarrow> bool \<Rightarrow> path option \<Rightarrow> string \<Rightarrow> Status \<times> string option" where
  "driftSpec r targetExists isLinkNow currentLink currentHash =
     (if \<not> targetExists then (Missing, Some ''target missing'')
      else if rmode r = Link \<or> (rmode r = Auto \<and> isLinkNow) then
        (if \<not> isLinkNow \<or> linkTarget r = None \<or> currentLink \<noteq> linkTarget r
         then (Drifted, Some ''link target changed'') else (Ok, None))
      else
        (if hash r = None \<or> Some currentHash \<noteq> hash r
         then (Drifted, Some ''content changed'') else (Ok, None)))"

text \<open>What the probes of \<^verbatim>\<open>getStatus\<close> see of a target now.\<close>

definition existsNow :: "node \<Rightarrow> path \<Rightarrow> bool" where
  "existsNow fs p = (case lstat fs p of Inr n \<Rightarrow> True | Inl e \<Rightarrow> False)"

definition isLinkNow :: "node \<Rightarrow> path \<Rightarrow> bool" where
  "isLinkNow fs p = (case lstat fs p of Inr n \<Rightarrow> isSymbolicLink n | Inl e \<Rightarrow> False)"

definition linkTextNow :: "node \<Rightarrow> path \<Rightarrow> path option" where
  "linkTextNow fs p = (case lstat fs p of Inr (Symlink t) \<Rightarrow> Some t | r \<Rightarrow> None)"

definition specEntry :: "node \<Rightarrow> (path \<Rightarrow> string) \<Rightarrow> SyncRecord \<Rightarrow> StatusEntry" where
  "specEntry fs digest r =
     (case driftSpec r (existsNow fs (rpath r)) (isLinkNow fs (rpath r))
             (linkTextNow fs (rpath r)) (digest (rpath r)) of
        (s, why) \<Rightarrow> \<lparr>spath = rpath r, status = s, reason = why\<rparr>)"

section \<open>What a copy is compared by\<close>

text \<open>
  What is at a place of the tree: a file with what it holds, a link with its text,
  a directory, or nothing. The place is walked to through directories only, so what
  lies behind a link or a file shows as nothing.
\<close>

datatype view = VFile content | VLink path | VDir | VAbsent

definition viewAt :: "node \<Rightarrow> path \<Rightarrow> view" where
  "viewAt fs p =
     (case nodeAt fs p of
        Inr (File b) \<Rightarrow> VFile b
      | Inr (Symlink t) \<Rightarrow> VLink t
      | Inr (Dir es) \<Rightarrow> VDir
      | Inl e \<Rightarrow> VAbsent)"

definition dirAt :: "node \<Rightarrow> path \<Rightarrow> bool" where
  "dirAt fs p = (case nodeAt fs p of Inr n \<Rightarrow> isDir n | Inl e \<Rightarrow> False)"

text \<open>A tree without links in it, and how deep a tree goes.\<close>

fun noLinks :: "node \<Rightarrow> bool"
  and noLinksIn :: "(string \<times> node) list \<Rightarrow> bool" where
  "noLinks (File b) = True"
| "noLinks (Symlink t) = False"
| "noLinks (Dir es) = noLinksIn es"
| "noLinksIn [] = True"
| "noLinksIn (e # es) = (noLinks (snd e) \<and> noLinksIn es)"

fun height :: "node \<Rightarrow> nat"
  and heightIn :: "(string \<times> node) list \<Rightarrow> nat" where
  "height (File b) = 0"
| "height (Symlink t) = 0"
| "height (Dir es) = Suc (heightIn es)"
| "heightIn [] = 0"
| "heightIn (e # es) = max (height (snd e)) (heightIn es)"

section \<open>Predicates for the proofs\<close>

text \<open>An effect that leaves a component of the state as it was, whatever it returns.\<close>

definition keeps :: "(run \<Rightarrow> 'x) \<Rightarrow> ('a, run) eff \<Rightarrow> bool" where
  "keeps g f = (\<forall>st. g (snd (f st)) = g st)"



text \<open>
  What a finished copy from one path to another has done to the tree: under the
  destination the same is seen as under the source before; what is neither under
  the destination nor above it is as it was; the directories above it are still
  directories.
\<close>

definition copied :: "path \<Rightarrow> path \<Rightarrow> node \<Rightarrow> node \<Rightarrow> bool" where
  "copied src dst fs fs' =
     ((\<forall>rel. viewAt fs' (dst @ rel) = viewAt fs (src @ rel)) \<and>
      (\<forall>q. \<not> prefix dst q \<and> \<not> prefix q dst \<longrightarrow> nodeAt fs' q = nodeAt fs q) \<and>
      (\<forall>q. prefix q dst \<and> q \<noteq> dst \<and> dirAt fs q \<longrightarrow> dirAt fs' q))"

text \<open>
  What any run of a copy to a destination, finished or not, leaves alone: what is
  neither under the destination nor above it, and the directories above it.
\<close>

definition framed :: "path \<Rightarrow> node \<Rightarrow> node \<Rightarrow> bool" where
  "framed dst fs fs' =
     ((\<forall>q. \<not> prefix dst q \<and> \<not> prefix q dst \<longrightarrow> nodeAt fs' q = nodeAt fs q) \<and>
      (\<forall>q. prefix q dst \<and> q \<noteq> dst \<and> dirAt fs q \<longrightarrow> dirAt fs' q))"

section \<open>Concrete platforms and trees, for evaluating the definitions\<close>

text \<open>
  A platform that allows links, has no terminal, and whose digest of a file is its
  bytes after a mark (so that it is never empty).
\<close>

definition E0 :: env where
  "E0 = \<lparr>symlinkAllowed = (\<lambda>p. True), tmpdir = [''tmp''], scratchError = None,
         stdinTTY = False, stdoutTTY = False,
         answers = (\<lambda>n. (None, False)), clock = (\<lambda>n. ''2026-01-01T00:00:00.000Z''),
         statSize = (\<lambda>fs p. 0), statMtimeMs = (\<lambda>fs p. 0), errorMessage = (\<lambda>e. ''failed''), syntaxMessage = (\<lambda>t. ''Unexpected token''),
         maxDepth = 8,
         hashPath = (\<lambda>fs p. case lstat fs p of
                                 Inr (File (Text b)) \<Rightarrow> Inr (CHR ''#'' # b)
                               | Inr n \<Rightarrow> Inr ''#d''
                               | Inl e \<Rightarrow> Inl (NodeError e))\<rparr>"

definition statusTree :: node where
  "statusTree = Dir [(''t'', Dir [(''a'', File (Text ''changed'')), (''b'', Symlink [''s'', ''b''])])]"

definition statusSnapshot :: SyncState where
  "statusSnapshot =
     \<lparr>version = 1, updatedAt = '''', smode = Global, projectRoot = None,
      files =
        [([''t'', ''a''],
          \<lparr>rpath = [''t'', ''a''], rsource = [''s'', ''a''], ragent = ''x'', rmode = Copy,
           size = 0, mtimeMs = 0, hash = Some ''#hello'', linkTarget = None\<rparr>),
         ([''t'', ''b''],
          \<lparr>rpath = [''t'', ''b''], rsource = [''s'', ''b''], ragent = ''x'', rmode = Auto,
           size = 0, mtimeMs = 0, hash = None, linkTarget = Some [''s'', ''b'']\<rparr>),
         ([''t'', ''c''],
          \<lparr>rpath = [''t'', ''c''], rsource = [''s'', ''c''], ragent = ''x'', rmode = Link,
           size = 0, mtimeMs = 0, hash = None, linkTarget = Some [''s'', ''c'']\<rparr>)]\<rparr>"

text \<open>
  One agent with one mapping, \<^verbatim>\<open>agent.md\<close> to \<^verbatim>\<open>AGENTS.md\<close>, from the source root
  \<^verbatim>\<open>/s\<close> to the target root \<^verbatim>\<open>/t\<close>, as in the tests of the repository.
\<close>

definition P0 :: pathfns where
  "P0 = \<lparr>resolvePath = (\<lambda>s. [s]), resolveFromRoot = (\<lambda>r s. r @ [s]),
         replaceProjectRoot = (\<lambda>r p. p)\<rparr>"

definition cfg0 :: AgentConfigFile where
  "cfg0 = \<lparr>defaultProfile = ''default'',
           agents = [(''testagent'',
                      \<lparr>displayName = ''Test'',
                       global = Some \<lparr>root = ''t'',
                                      sfiles = [\<lparr>msource = ''agent.md'', mtarget = ''AGENTS.md''\<rparr>]\<rparr>,
                       project = None\<rparr>)],
           profiles = None\<rparr>"

definition opts0 :: SyncOptions where
  "opts0 = \<lparr>config = cfg0, sourceRoot = [''s''], omode = Global, oprojectRoot = None,
            linkMode = Link, dryRun = False, force = False, conflictPolicy = None,
            agentFilter = None, strict = None\<rparr>"

definition m0 :: ResolvedMapping where
  "m0 = \<lparr>agent = ''testagent'', source = [''s'', ''agent.md''], target = [''t'', ''AGENTS.md''],
         mode = Link\<rparr>"

definition cs0 :: ConflictState where
  "cs0 = \<lparr>policy = None, canAsk = True\<rparr>"

definition world :: "node \<Rightarrow> run" where
  "world fs = \<lparr>tree = fs, ticks = 0, asked = 0, warnings = [],
                 updatedMappings = [], skippedMappings = [], conflictState = cs0\<rparr>"

definition freshTree :: node where
  "freshTree = Dir [(''s'', Dir [(''agent.md'', File (Text ''hello''))]), (''t'', Dir [])]"

definition noSourceTree :: node where
  "noSourceTree = Dir [(''s'', Dir []), (''t'', Dir [])]"

definition fileTree :: node where
  "fileTree = Dir [(''s'', Dir [(''agent.md'', File (Text ''hello''))]),
                   (''t'', Dir [(''AGENTS.md'', File (Text ''existing''))])]"

definition dirTree :: node where
  "dirTree = Dir [(''s'', Dir [(''agent.md'', File (Text ''hello''))]),
                  (''t'', Dir [(''AGENTS.md'', Dir [(''nested.txt'', File (Text ''data''))])])]"

definition linkedTree :: node where
  "linkedTree = Dir [(''s'', Dir [(''agent.md'', File (Text ''hello''))]),
                     (''t'', Dir [(''AGENTS.md'', Symlink [''s'', ''agent.md''])])]"

definition copiedTree :: node where
  "copiedTree = Dir [(''s'', Dir [(''agent.md'', File (Text ''hello''))]),
                     (''t'', Dir [(''AGENTS.md'', File (Text ''hello''))])]"

text \<open>The same agent with a second mapping, \<^verbatim>\<open>other.md\<close> to \<^verbatim>\<open>OTHER.md\<close>.\<close>

definition cfg2 :: AgentConfigFile where
  "cfg2 = \<lparr>defaultProfile = ''default'',
           agents = [(''testagent'',
                      \<lparr>displayName = ''Test'',
                       global = Some \<lparr>root = ''t'',
                                      sfiles = [\<lparr>msource = ''agent.md'', mtarget = ''AGENTS.md''\<rparr>,
                                                \<lparr>msource = ''other.md'', mtarget = ''OTHER.md''\<rparr>]\<rparr>,
                       project = None\<rparr>)],
           profiles = None\<rparr>"

definition opts2 :: SyncOptions where
  "opts2 = opts0\<lparr>config := cfg2\<rparr>"

definition m1 :: ResolvedMapping where
  "m1 = \<lparr>agent = ''testagent'', source = [''s'', ''other.md''], target = [''t'', ''OTHER.md''],
         mode = Link\<rparr>"

definition otherTree :: node where
  "otherTree = Dir [(''s'', Dir [(''agent.md'', File (Text ''hello'')), (''other.md'', File (Text ''other''))]),
                    (''t'', Dir [(''OTHER.md'', File (Text ''existing''))])]"

definition otherLinkedTree :: node where
  "otherLinkedTree =
     Dir [(''s'', Dir [(''agent.md'', File (Text ''hello'')), (''other.md'', File (Text ''other''))]),
          (''t'', Dir [(''OTHER.md'', File (Text ''existing'')),
                       (''AGENTS.md'', Symlink [''s'', ''agent.md''])])]"

definition bothTree :: node where
  "bothTree = Dir [(''s'', Dir [(''agent.md'', File (Text ''hello'')), (''other.md'', File (Text ''other''))]),
                   (''t'', Dir [(''AGENTS.md'', File (Text ''mine'')), (''OTHER.md'', File (Text ''existing''))])]"

text \<open>A platform with a terminal, whose operator answers "overwrite" for all.\<close>

definition E1 :: env where
  "E1 = E0\<lparr>stdinTTY := True, stdoutTTY := True, answers := (\<lambda>n. (Some 1, True))\<rparr>"

text \<open>A snapshot of an earlier run: a target of no present mapping, and the target
  of the mapping \<open>m0\<close> as a copy.\<close>

definition prevSnapshot :: SyncState where
  "prevSnapshot =
     \<lparr>version = 1, updatedAt = ''2025-12-31T00:00:00.000Z'', smode = Global, projectRoot = None,
      files =
        [([''t'', ''OLD.md''],
          \<lparr>rpath = [''t'', ''OLD.md''], rsource = [''s'', ''old.md''], ragent = ''x'', rmode = Copy,
           size = 0, mtimeMs = 0, hash = Some ''#old'', linkTarget = None\<rparr>),
         ([''t'', ''AGENTS.md''],
          \<lparr>rpath = [''t'', ''AGENTS.md''], rsource = [''s'', ''agent.md''], ragent = ''testagent'',
           rmode = Copy, size = 0, mtimeMs = 0, hash = Some ''#hello'', linkTarget = None\<rparr>)]\<rparr>"

text \<open>A platform that refuses every link.\<close>

definition ENoLink :: env where
  "ENoLink = E0\<lparr>symlinkAllowed := (\<lambda>p. False)\<rparr>"

definition m0copy :: ResolvedMapping where
  "m0copy = m0\<lparr>mode := Copy\<rparr>"

text \<open>A run that backs conflicts up, and where the backup of \<open>m0\<close> goes.\<close>

definition optsBackup :: SyncOptions where
  "optsBackup = opts0\<lparr>conflictPolicy := Some Backup\<rparr>"

definition backupPath :: path where
  "backupPath = [''s'', ''backup'', ''2026-01-01T00-00-00-000Z'', ''t'', ''AGENTS.md'']"

section \<open>Facts about the platform\<close>

lemma nodeAt_errno: "nodeAt n p = Inl e \<Longrightarrow> e = ENOENT \<or> e = ENOTDIR"
proof (induction p arbitrary: n)
  case Nil
  then show ?case by simp
next
  case (Cons c p)
  then show ?case by (cases n) (auto split: option.splits)
qed

lemma nodeAt_Cons_Dir:
  "nodeAt (Dir es) (c # p) = (case map_of es c of None \<Rightarrow> Inl ENOENT | Some n \<Rightarrow> nodeAt n p)"
  by simp

lemma nodeAt_nonDir: "\<not> isDir n \<Longrightarrow> p \<noteq> [] \<Longrightarrow> nodeAt n p = Inl ENOTDIR"
  by (cases n; cases p) simp_all

lemma nodeAt_putAt_same:
  "p \<noteq> [] \<Longrightarrow> nodeAt fs (butlast p) = Inr (Dir es) \<Longrightarrow> nodeAt (putAt p n fs) p = Inr n"
  by (induction p n fs arbitrary: es rule: putAt.induct)
     (auto simp: update_conv' split: option.splits if_splits)

lemma nodeAt_removeAt_same:
  "nodeAt fs p = Inr n \<Longrightarrow> p \<noteq> [] \<Longrightarrow> nodeAt (removeAt p fs) p = Inl ENOENT"
  by (induction p fs arbitrary: n rule: removeAt.induct)
     (auto simp: update_conv' delete_conv' split: option.splits if_splits)

lemma nodeAt_parent:
  "nodeAt fs p = Inr n \<Longrightarrow> p \<noteq> [] \<Longrightarrow> \<exists>es. nodeAt fs (butlast p) = Inr (Dir es)"
proof (induction p arbitrary: fs)
  case Nil
  then show ?case by simp
next
  case (Cons c p)
  show ?case
  proof (cases fs)
    case (Dir es)
    show ?thesis
    proof (cases "p = []")
      case True
      with Dir show ?thesis by simp
    next
      case False
      with Cons Dir show ?thesis by (auto split: option.splits)
    qed
  qed (use Cons.prems in simp_all)
qed

lemma nodeAt_removeAt_parent:
  "nodeAt fs p = Inr n \<Longrightarrow> p \<noteq> [] \<Longrightarrow> \<exists>es. nodeAt (removeAt p fs) (butlast p) = Inr (Dir es)"
  by (induction p fs arbitrary: n rule: removeAt.induct)
     (auto simp: update_conv' delete_conv' split: option.splits if_splits)

lemma nodeAt_child_of_dir:
  "nodeAt fs (butlast p) = Inr (Dir es) \<Longrightarrow> p \<noteq> [] \<Longrightarrow> nodeAt fs p = Inl e \<Longrightarrow> e = ENOENT"
proof (induction p arbitrary: fs)
  case Nil
  then show ?case by simp
next
  case (Cons c p)
  show ?case
  proof (cases fs)
    case (Dir es')
    show ?thesis
    proof (cases "p = []")
      case True
      with Cons.prems Dir show ?thesis by (auto split: option.splits)
    next
      case False
      with Cons Dir show ?thesis by (auto split: option.splits)
    qed
  qed (use Cons.prems in \<open>cases p; simp\<close>)+
qed

lemma nodeAt_append: "nodeAt fs p = Inr n \<Longrightarrow> nodeAt fs (p @ q) = nodeAt n q"
proof (induction p arbitrary: fs)
  case Nil
  then show ?case by simp
next
  case (Cons c p)
  then show ?case by (cases fs) (auto split: option.splits)
qed

lemma nodeAt_append_error: "nodeAt fs p = Inl e \<Longrightarrow> nodeAt fs (p @ q) = Inl e"
proof (induction p arbitrary: fs)
  case Nil
  then show ?case by simp
next
  case (Cons c p)
  then show ?case by (cases fs) (auto split: option.splits)
qed

lemma putAt_frame:
  "\<not> prefix p q \<Longrightarrow> \<not> prefix q p \<Longrightarrow> nodeAt (putAt p n fs) q = nodeAt fs q"
proof (induction p arbitrary: fs q)
  case Nil
  then show ?case by simp
next
  case (Cons c p)
  from Cons.prems obtain d q' where q: "q = d # q'" by (cases q) auto
  show ?case
  proof (cases fs)
    case (Dir es)
    show ?thesis
    proof (cases p)
      case Nil
      with Cons.prems q Dir show ?thesis by (auto simp: update_conv')
    next
      case (Cons c' p')
      with Cons.prems Cons.IH q Dir show ?thesis
        by (auto simp: update_conv' split: option.splits)
    qed
  qed simp_all
qed

lemma putAt_ancestor:
  "prefix q p \<Longrightarrow> q \<noteq> p \<Longrightarrow> dirAt fs q \<Longrightarrow> dirAt (putAt p n fs) q"
proof (induction p arbitrary: fs q)
  case Nil
  then show ?case by simp
next
  case (Cons c p)
  show ?case
  proof (cases q)
    case Nil
    with Cons.prems show ?thesis by (cases fs; cases p) (auto simp: dirAt_def split: option.splits)
  next
    case q: (Cons d q')
    show ?thesis
    proof (cases fs)
      case (Dir es)
      show ?thesis
      proof (cases p)
        case Nil
        with Cons.prems q Dir show ?thesis by auto
      next
        case (Cons c' p')
        from Cons.prems q have dc: "d = c" and pq: "prefix q' p" and ne: "q' \<noteq> p" by auto
        from Cons.prems(3) q Dir dc obtain n where n: "map_of es c = Some n" and dn: "dirAt n q'"
          by (auto simp: dirAt_def split: option.splits)
        from Cons.IH[OF pq ne dn] n Dir q dc Cons show ?thesis
          by (simp add: dirAt_def update_conv')
      qed
    qed (use Cons.prems q in \<open>simp_all add: dirAt_def\<close>)
  qed
qed

lemma nodeAt_putAt_under:
  "p \<noteq> [] \<Longrightarrow> nodeAt fs (butlast p) = Inr (Dir es) \<Longrightarrow> nodeAt (putAt p n fs) (p @ rel) = nodeAt n rel"
  using nodeAt_append[OF nodeAt_putAt_same] by blast

lemma noLinksIn_child: "noLinksIn es \<Longrightarrow> map_of es x = Some c \<Longrightarrow> noLinks c"
  by (induction es) (auto split: if_splits)

lemma heightIn_child: "map_of es x = Some c \<Longrightarrow> height c \<le> heightIn es"
  by (induction es) (auto split: if_splits)

lemma removeAt_frame:
  "\<not> prefix p q \<Longrightarrow> \<not> prefix q p \<Longrightarrow> nodeAt (removeAt p fs) q = nodeAt fs q"
proof (induction p arbitrary: fs q)
  case Nil
  then show ?case by simp
next
  case (Cons c p)
  from Cons.prems obtain d q' where q: "q = d # q'" by (cases q) auto
  show ?case
  proof (cases fs)
    case (Dir es)
    show ?thesis
    proof (cases p)
      case Nil
      with Cons.prems q Dir show ?thesis by (auto simp: delete_conv')
    next
      case (Cons c' p')
      with Cons.prems Cons.IH q Dir show ?thesis
        by (auto simp: update_conv' split: option.splits)
    qed
  qed simp_all
qed

lemma nodeAt_split:
  "nodeAt fs (a @ b) = Inr n \<Longrightarrow> \<exists>m. nodeAt fs a = Inr m \<and> nodeAt m b = Inr n"
proof (induction a arbitrary: fs)
  case Nil
  then show ?case by simp
next
  case (Cons c a)
  then show ?case by (cases fs) (auto split: option.splits)
qed

lemma nodeAt_prefix_dir:
  assumes "nodeAt fs (a @ b) = Inr n" "b \<noteq> []"
  shows "\<exists>es. nodeAt fs a = Inr (Dir es)"
proof -
  from nodeAt_split[OF assms(1)] obtain m where m: "nodeAt fs a = Inr m" "nodeAt m b = Inr n"
    by blast
  have "isDir m"
  proof (rule ccontr)
    assume "\<not> isDir m"
    from nodeAt_nonDir[OF this assms(2)] m(2) show False by simp
  qed
  then obtain es where "m = Dir es" by (cases m) simp_all
  with m show ?thesis by simp
qed



lemma resolve_plain:
  "nodeAt fs (cur @ p) = Inr (Dir es) \<Longrightarrow> resolve k fs cur p = Inr (cur @ p)"
proof (induction p arbitrary: cur)
  case Nil
  then show ?case by simp
next
  case (Cons c p)
  have e: "nodeAt fs ((cur @ [c]) @ p) = Inr (Dir es)" using Cons.prems by simp
  have "\<exists>es'. nodeAt fs (cur @ [c]) = Inr (Dir es')"
  proof (cases "p = []")
    case True
    with e show ?thesis by simp
  next
    case False
    from nodeAt_prefix_dir[OF e False] show ?thesis .
  qed
  then obtain es' where d: "nodeAt fs (cur @ [c]) = Inr (Dir es')" by blast
  from Cons.IH[OF e] d show ?case by simp
qed

lemma resolve_dir:
  "resolve k fs cur p = Inr d \<Longrightarrow> dirAt fs cur \<Longrightarrow> dirAt fs d"
proof (induction k fs cur p rule: resolve.induct)
  case (1 k fs cur)
  then show ?case by simp
next
  case (2 k fs cur c rest)
  show ?case
  proof (cases "nodeAt fs (cur @ [c])")
    case (Inl e)
    with 2(3) show ?thesis by simp
  next
    case (Inr n)
    show ?thesis
    proof (cases n)
      case (File x)
      with Inr 2(3) show ?thesis by simp
    next
      case (Dir es)
      with Inr 2(3) have r: "resolve k fs (cur @ [c]) rest = Inr d" by simp
      have "dirAt fs (cur @ [c])" using Inr Dir by (simp add: dirAt_def)
      from 2(2)[OF Inr Dir r this] show ?thesis .
    next
      case (Symlink t)
      show ?thesis
      proof (cases k)
        case 0
        with Inr Symlink 2(3) show ?thesis by simp
      next
        case (Suc k')
        with Inr Symlink 2(3) have r: "resolve k' fs [] (t @ rest) = Inr d" by simp
        have root: "dirAt fs []"
        proof (cases "cur = []")
          case True
          with 2(4) show ?thesis by simp
        next
          case False
          from 2(4) obtain es where "nodeAt fs cur = Inr (Dir es)"
            by (auto simp: dirAt_def split: sum.splits elim: isDir.elims)
          then have "nodeAt fs ([] @ cur) = Inr (Dir es)" by simp
          from nodeAt_prefix_dir[OF this False] show ?thesis by (auto simp: dirAt_def)
        qed
        from 2(1)[OF Inr Symlink Suc r root] show ?thesis .
      qed
    qed
  qed
qed



lemma lstat_root: "lstat fs [] = Inr fs"
  by (simp add: lstat_def locate_def)

lemma locate_plain:
  "nodeAt fs (butlast p) = Inr (Dir es) \<Longrightarrow> locate fs p = Inr p"
  using resolve_plain[of fs "[]" "butlast p" es 40]
  by (simp add: locate_def)

lemma lstat_plain:
  "nodeAt fs (butlast p) = Inr (Dir es) \<Longrightarrow> lstat fs p = nodeAt fs p"
  by (simp add: lstat_def locate_plain)

lemma lstat_exists: "nodeAt fs p = Inr n \<Longrightarrow> lstat fs p = Inr n"
proof (cases "p = []")
  case True
  assume "nodeAt fs p = Inr n"
  with True show ?thesis by (simp add: lstat_root)
next
  case False
  assume a: "nodeAt fs p = Inr n"
  from nodeAt_parent[OF a False] obtain es where "nodeAt fs (butlast p) = Inr (Dir es)" by blast
  from lstat_plain[OF this] a show ?thesis by simp
qed






section \<open>What an effect leaves alone\<close>

lemmas eff_defs = ret_def throw_def andThen_def tryCatch_def getState_def prim_def primE_def
  probe_def probeE_def onTree_def pushWarning_def pushSkipped_def pushUpdated_def
  setConflictState_def

lemma keepsD: "keeps g f \<Longrightarrow> f st = (r, st') \<Longrightarrow> g st' = g st"
  by (auto simp: keeps_def dest: spec[of _ st])



















lemma keeps_resolveConflictPolicy:
  "(\<And>st t. g (st\<lparr>asked := t\<rparr>) = g st) \<Longrightarrow> keeps g (resolveConflictPolicy E t cs)"
  by (auto simp: keeps_def resolveConflictPolicy_def split: option.splits prod.splits)


section \<open>Unfolding the model on concrete inputs\<close>

lemmas model_defs = syncConfigs_def startRun_def syncBody_def conflictBlock_def
  resolveConflictPolicy_def promptConflictAction_def backupTarget_def backupDestination_def
  timestampText_def resolveMappings_def getProfileFiles_def resolveSyncMode_def
  canCreateSymlink_def getTargetInfo_def removeEmptyDirectory_def removeDirectory_def
  ensureTargetParent_def refusal_def applyCopyMapping_def applyMapping_def tryLink_def isManaged_def
  buildState_def writeState_def readState_def getStatePath_def makeRecord_def ensureDir_def fileExists_def readLinkTarget_def
  unlink_def rmdir_def rm_def readdir_def copyFile_def readFile_def writeFile_def symlink_def
  pathText_def lstat_def locate_def mkdirp_def

lemmas fixture_defs = E0_def P0_def cfg0_def opts0_def m0_def cs0_def world_def freshTree_def
  noSourceTree_def fileTree_def dirTree_def linkedTree_def copiedTree_def cfg2_def opts2_def
  m1_def otherTree_def otherLinkedTree_def bothTree_def E1_def prevSnapshot_def ENoLink_def m0copy_def
  optsBackup_def backupPath_def

section \<open>The run as a whole\<close>

lemma syncLoop_append:
  "syncLoop E opts sm ex (xs @ ys) st =
     (case syncLoop E opts sm ex xs st of
        (Inl e, st') \<Rightarrow> (Inl e, st')
      | (Inr u, st') \<Rightarrow> syncLoop E opts sm ex ys st')"
  by (induction xs arbitrary: st) (auto split: prod.splits sum.splits)

text \<open>
  How \<^verbatim>\<open>syncConfigs\<close> ends, given how its loop ends: a throw of the loop is the throw
  of the run; after the loop the snapshot is built and written unless the run is dry.
\<close>

lemma syncConfigs_loop_throws:
  assumes "resolveSyncMode E (linkMode opts) = Inr lm"
    and "resolveMappings P (config opts) (sourceRoot opts) (omode opts) (oprojectRoot opts)
             lm (agentFilter opts) = Inr ms"
    and "readState E (sourceRoot opts) (tree w) = Inr ex"
    and "syncLoop E opts (case strict opts of None \<Rightarrow> False | Some b \<Rightarrow> b) ex ms
           (startRun opts w) = (Inl e, st)"
  shows "syncConfigs E P opts w = (Inl e, st)"
  using assms by (simp add: syncConfigs_def Let_def andThen_def)





















section \<open>The conflict policy through a run\<close>


















section \<open>Applying a mapping\<close>












lemma syncBody_applies:
  assumes src: "lstat (tree st) (source m) = Inr n"
    and tgt: "lstat (tree st) (target m) = Inr n'"
    and nd: "\<not> dryRun opts"
    and go: "force opts \<or> isManaged (target m) ex"
  shows "syncBody E opts sm ex m st =
           andThen
             (tryCatch (applyMapping E m True)
                (\<lambda>err. if isAgentConfigError err then throw err
                       else throw (AgentConfigError (''Failed to sync '' @ pathText (target m))
                                     Filesystem)))
             (\<lambda>u. pushUpdated m) st"
  using assms
  by (auto simp add: syncBody_def getState_def ret_def onTree_def probeE_def fileExists_def Let_def
        andThen_def)


section \<open>Claims about missing sources\<close>



section \<open>Claims about the conflict policy\<close>





section \<open>Claims about cancelling\<close>

lemma syncBody_cancel:
  assumes src: "lstat (tree st) (source m) = Inr n"
    and tgt: "lstat (tree st) (target m) = Inr n'"
    and nf: "\<not> force opts" and nm: "\<not> isManaged (target m) ex"
    and dec: "resolveConflictPolicy E (target m) (conflictState st) st = (Inr (Cancel, cs'), st1)"
  shows "syncBody E opts sm ex m st =
           (Inl (AgentConfigError ''Sync cancelled'' Conflict), st1\<lparr>conflictState := cs'\<rparr>)"
  using assms
  by (simp add: syncBody_def conflictBlock_def eff_defs fileExists_def Let_def)

text \<open>
  Claim C8. When the loop reaches a mapping whose source and target exist, the
  target being neither forced nor managed, and the conflict decision is cancel, the
  run throws "Sync cancelled" with the Conflict code at once. The tree it leaves is
  the tree as the mappings before had made it: nothing applied earlier is rolled
  back, and the updated list is not touched.
\<close>

theorem cancel_aborts_without_rollback:
  assumes lmode: "resolveSyncMode E (linkMode opts) = Inr lm"
    and plan: "resolveMappings P (config opts) (sourceRoot opts) (omode opts) (oprojectRoot opts)
             lm (agentFilter opts) = Inr (pre @ m # rest)"
    and snap: "readState E (sourceRoot opts) (tree w) = Inr ex"
    and sm: "sm = (case strict opts of None \<Rightarrow> False | Some b \<Rightarrow> b)"
    and before: "syncLoop E opts sm ex pre (startRun opts w) = (Inr (), st)"
    and src: "lstat (tree st) (source m) = Inr n"
    and tgt: "lstat (tree st) (target m) = Inr n'"
    and nf: "\<not> force opts" and nm: "\<not> isManaged (target m) ex"
    and dec: "resolveConflictPolicy E (target m) (conflictState st) st = (Inr (Cancel, cs'), st1)"
  shows "syncConfigs E P opts w =
           (Inl (AgentConfigError ''Sync cancelled'' Conflict), st1\<lparr>conflictState := cs'\<rparr>) \<and>
         tree st1 = tree st \<and> updatedMappings st1 = updatedMappings st"
proof -
  have "syncLoop E opts sm ex (pre @ m # rest) (startRun opts w) =
          (Inl (AgentConfigError ''Sync cancelled'' Conflict), st1\<lparr>conflictState := cs'\<rparr>)"
    using before syncBody_cancel[OF src tgt nf nm dec, of sm] by (simp add: syncLoop_append)
  then have 1: "syncConfigs E P opts w =
           (Inl (AgentConfigError ''Sync cancelled'' Conflict), st1\<lparr>conflictState := cs'\<rparr>)"
    using syncConfigs_loop_throws[OF lmode plan snap] sm by simp
  have 2: "tree st1 = tree st" "updatedMappings st1 = updatedMappings st"
    using keepsD[OF keeps_resolveConflictPolicy dec, of tree]
      keepsD[OF keeps_resolveConflictPolicy dec, of updatedMappings] by simp_all
  show ?thesis using 1 2 by simp
qed

theorem cancel_aborts_without_rollback_witness:
  "syncConfigs E0 P0 (opts2\<lparr>conflictPolicy := Some Cancel\<rparr>) (world otherTree) =
     (Inl (AgentConfigError ''Sync cancelled'' Conflict),
      (world otherLinkedTree)\<lparr>updatedMappings := [m0],
         conflictState := \<lparr>policy = Some Cancel, canAsk = True\<rparr>\<rparr>)"
proof -
  let ?o = "opts2\<lparr>conflictPolicy := Some Cancel\<rparr>"
  let ?st = "(world otherLinkedTree)\<lparr>updatedMappings := [m0],
         conflictState := \<lparr>policy = Some Cancel, canAsk = True\<rparr>\<rparr>"
  have l: "resolveSyncMode E0 (linkMode ?o) = Inr Link"
    by (simp add: model_defs fixture_defs)
  have a: "resolveMappings P0 (config ?o) (sourceRoot ?o) (omode ?o) (oprojectRoot ?o)
             Link (agentFilter ?o) = Inr ([m0] @ m1 # [])"
    by (simp add: model_defs fixture_defs Let_def)
  have b: "readState E0 (sourceRoot ?o) (tree (world otherTree)) = Inr None"
    by (simp add: model_defs fixture_defs Let_def eval_nat_numeral)
  have c: "False = (case strict ?o of None \<Rightarrow> False | Some b \<Rightarrow> b)"
    by (simp add: fixture_defs lstat_def locate_def)
  have d: "syncLoop E0 ?o False None [m0] (startRun ?o (world otherTree)) = (Inr (), ?st)"
    by (simp add: model_defs eff_defs fixture_defs Let_def)
  have e: "lstat (tree ?st) (source m1) = Inr (File (Text ''other''))"
    by (simp add: fixture_defs lstat_def locate_def)
  have f: "lstat (tree ?st) (target m1) = Inr (File (Text ''existing''))"
    by (simp add: fixture_defs lstat_def locate_def)
  have g: "\<not> force ?o" "\<not> isManaged (target m1) None"
    by (simp_all add: fixture_defs isManaged_def)
  have h: "resolveConflictPolicy E0 (target m1) (conflictState ?st) ?st =
             (Inr (Cancel, \<lparr>policy = Some Cancel, canAsk = True\<rparr>), ?st)"
    by (simp add: resolveConflictPolicy_def)
  show ?thesis
    using cancel_aborts_without_rollback[OF l a b c d e f g h] by simp
qed

section \<open>Claims about non-empty directories\<close>




end
